theory Spec2Isabelle
  imports Main "HOL-Library.AList"
begin

section \<open>Paths: the functions of Go's path/filepath the backend calls\<close>

text \<open>
  The Swift backend builds every object key with \<open>filepath.Join\<close> and takes the file
  name of a pool file with \<open>filepath.Base\<close>. Both are functions of Go's standard
  library (Unix flavour, separator \<open>/\<close>); they are written out here element by element:
  \<open>Join\<close> drops leading empty elements, joins the rest with the separator and cleans the
  result; \<open>Clean\<close> removes empty and \<open>.\<close> elements, resolves inner \<open>..\<close> elements,
  drops \<open>..\<close> at the start of a rooted path and turns the empty result into \<open>.\<close>.
\<close>

fun split_sep :: "string \<Rightarrow> string list" where
  "split_sep [] = [[]]"
| "split_sep (c # cs) =
     (if c = CHR ''/'' then [] # split_sep cs
      else (case split_sep cs of [] \<Rightarrow> [[c]] | e # es \<Rightarrow> (c # e) # es))"

fun join_sep :: "string list \<Rightarrow> string" where
  "join_sep [] = []"
| "join_sep [e] = e"
| "join_sep (e # es) = e @ CHR ''/'' # join_sep es"

definition clean_elem :: "bool \<Rightarrow> string list \<Rightarrow> string \<Rightarrow> string list" where
  "clean_elem rooted out e =
     (if e = [] then out
      else if e = ''.'' then out
      else if e = ''..'' then
        (case out of
           [] \<Rightarrow> (if rooted then [] else [''..''])
         | t # ts \<Rightarrow> (if t = ''..'' then ''..'' # out else ts))
      else e # out)"

definition Clean :: "string \<Rightarrow> string" where
  "Clean path =
     (if path = [] then ''.''
      else
        let rooted = (hd path = CHR ''/'');
            out = rev (foldl (clean_elem rooted) [] (split_sep path))
        in if rooted then CHR ''/'' # join_sep out
           else if out = [] then ''.'' else join_sep out)"

definition Join :: "string list \<Rightarrow> string" where
  "Join elem =
     (case dropWhile (\<lambda>e. e = []) elem of
        [] \<Rightarrow> []
      | es \<Rightarrow> Clean (join_sep es))"

definition Base :: "string \<Rightarrow> string" where
  "Base path =
     (if path = [] then ''.''
      else
        let stripped = rev (dropWhile (\<lambda>c. c = CHR ''/'') (rev path));
            elem = rev (takeWhile (\<lambda>c. c \<noteq> CHR ''/'') (rev stripped))
        in if elem = [] then ''/'' else elem)"

section \<open>The Swift account the backend talks to\<close>

text \<open>
  The backend reaches the object store only through five calls of the Swift client
  library: \<open>ObjectPut\<close>, \<open>ObjectDelete\<close>, \<open>Object\<close>, \<open>ObjectsAll\<close> and
  \<open>ObjectMove\<close>. The library is not part of the repository; the calls are modelled by
  what its documentation promises. The account is an association list from
  (container, object name) to the object's content. Each call is one request, recorded
  in \<open>calls\<close>; the \<open>n\<close>-th request fails with the error \<open>faults w n r\<close> when there is
  one (a transport, authorisation or server failure), and a failed request changes no
  object. \<open>etag\<close> is the digest the server reports for a content. \<open>ObjectNotFound\<close> is
  the library's sentinel for a missing object, which \<open>Object\<close>, \<open>ObjectDelete\<close> and
  \<open>ObjectCopy\<close> return for a name that is not stored. \<open>ObjectMove\<close> is documented as
  \<open>ObjectCopy\<close> followed by \<open>ObjectDelete\<close> of the source. A listing returns the
  objects of a container in the order of the association list; Swift lists by name,
  and the examples below keep their objects in that order.
  The calls are modelled for object names that are not empty. With an empty name the
  client addresses the container itself (a delete then removes the container, or is
  refused for a container that still holds objects); this is outside the model, and
  what is stated about the outcome of a delete is stated for a key that is not empty.
  \<open>files\<close> is the local file system \<open>os.Open\<close> reads: the content of each readable file.
\<close>

datatype swift_error = ObjectNotFound | SwiftError string

fun Error :: "swift_error \<Rightarrow> string" where
  "Error ObjectNotFound = ''Object Not Found''"
| "Error (SwiftError msg) = msg"

datatype request =
    PutRequest string string string
  | DeleteRequest string string
  | HeadRequest string string
  | ListRequest string
  | CopyRequest string string string string

record swift_object =
  Name :: string
  Bytes :: nat
  Hash :: string

record world =
  files :: "string \<Rightarrow> string option"
  objects :: "((string \<times> string) \<times> string) list"
  etag :: "string \<Rightarrow> string"
  faults :: "nat \<Rightarrow> request \<Rightarrow> swift_error option"
  calls :: "request list"

definition send :: "request \<Rightarrow> world \<Rightarrow> swift_error option \<times> world" where
  "send r w = (faults w (length (calls w)) r, w\<lparr>calls := calls w @ [r]\<rparr>)"

definition ObjectPut ::
  "string \<Rightarrow> string \<Rightarrow> string \<Rightarrow> world \<Rightarrow> swift_error option \<times> world" where
  "ObjectPut c name contents w =
     (case send (PutRequest c name contents) w of
        (Some err, w1) \<Rightarrow> (Some err, w1)
      | (None, w1) \<Rightarrow>
          (None, w1\<lparr>objects := AList.update (c, name) contents (objects w1)\<rparr>))"

definition ObjectDelete :: "string \<Rightarrow> string \<Rightarrow> world \<Rightarrow> swift_error option \<times> world" where
  "ObjectDelete c name w =
     (case send (DeleteRequest c name) w of
        (Some err, w1) \<Rightarrow> (Some err, w1)
      | (None, w1) \<Rightarrow>
          (case map_of (objects w1) (c, name) of
             None \<Rightarrow> (Some ObjectNotFound, w1)
           | Some contents \<Rightarrow>
               (None, w1\<lparr>objects := AList.delete (c, name) (objects w1)\<rparr>)))"

definition Object ::
  "string \<Rightarrow> string \<Rightarrow> world \<Rightarrow> (swift_error + swift_object) \<times> world" where
  "Object c name w =
     (case send (HeadRequest c name) w of
        (Some err, w1) \<Rightarrow> (Inl err, w1)
      | (None, w1) \<Rightarrow>
          (case map_of (objects w1) (c, name) of
             None \<Rightarrow> (Inl ObjectNotFound, w1)
           | Some contents \<Rightarrow>
               (Inr \<lparr>Name = name, Bytes = length contents, Hash = etag w1 contents\<rparr>, w1)))"

definition listing :: "string \<Rightarrow> world \<Rightarrow> swift_object list" where
  "listing c w =
     map (\<lambda>(k, contents). \<lparr>Name = snd k, Bytes = length contents, Hash = etag w contents\<rparr>)
       (filter (\<lambda>(k, contents). fst k = c) (objects w))"

definition ObjectsAll ::
  "string \<Rightarrow> world \<Rightarrow> (swift_error + swift_object list) \<times> world" where
  "ObjectsAll c w =
     (case send (ListRequest c) w of
        (Some err, w1) \<Rightarrow> (Inl err, w1)
      | (None, w1) \<Rightarrow> (Inr (listing c w1), w1))"

definition ObjectCopy ::
  "string \<Rightarrow> string \<Rightarrow> string \<Rightarrow> string \<Rightarrow> world \<Rightarrow> swift_error option \<times> world" where
  "ObjectCopy c name c' name' w =
     (case send (CopyRequest c name c' name') w of
        (Some err, w1) \<Rightarrow> (Some err, w1)
      | (None, w1) \<Rightarrow>
          (case map_of (objects w1) (c, name) of
             None \<Rightarrow> (Some ObjectNotFound, w1)
           | Some contents \<Rightarrow>
               (None, w1\<lparr>objects := AList.update (c', name') contents (objects w1)\<rparr>)))"

definition ObjectMove ::
  "string \<Rightarrow> string \<Rightarrow> string \<Rightarrow> string \<Rightarrow> world \<Rightarrow> swift_error option \<times> world" where
  "ObjectMove c name c' name' w =
     (case ObjectCopy c name c' name' w of
        (Some err, w1) \<Rightarrow> (Some err, w1)
      | (None, w1) \<Rightarrow> ObjectDelete c name w1)"

section \<open>The published storage on Swift\<close>

text \<open>
  The storage is the Go struct: the connection, the container and the root prefix. No
  method assigns to a field of it, so each method takes the storage as a value and
  returns its error (and its result, where it has one) together with the new state of
  the world.
\<close>

record Connection =
  UserName :: string
  ApiKey :: string
  AuthUrl :: string

record PublishedStorage =
  swift :: Connection
  container :: string
  prefix :: string

text \<open>
  What a method returns as its \<open>error\<close>: the error of \<open>os.Open\<close> for a path, an error
  of the Swift client handed on as it is, or a new error made by \<open>fmt.Errorf\<close> with its
  message. \<open>Panic\<close> is the run-time panic of the unchecked type assertion in
  \<open>LinkFromPool\<close>.
\<close>

datatype error = PathError string | Swift swift_error | Errorf string | Panic

datatype PackagePool = files_PackagePool | other_PackagePool

type_synonym Progress = unit

definition NewPublishedStorage ::
  "string \<Rightarrow> string \<Rightarrow> string \<Rightarrow> string \<Rightarrow> string \<Rightarrow> PublishedStorage" where
  "NewPublishedStorage authUrl userName apiKey cont pre =
     (let result = \<lparr>swift = \<lparr>UserName = userName, ApiKey = apiKey, AuthUrl = authUrl\<rparr>,
                     container = cont, prefix = pre\<rparr>
      in if prefix result = ''/'' then result\<lparr>prefix := []\<rparr> else result)"

definition String :: "PublishedStorage \<Rightarrow> string" where
  "String storage =
     ''Swift: '' @ AuthUrl (swift storage) @ '' '' @ UserName (swift storage) @ '' ''
       @ container storage @ '' '' @ prefix storage"

definition MkDir :: "PublishedStorage \<Rightarrow> string \<Rightarrow> world \<Rightarrow> error option \<times> world" where
  "MkDir storage path w = (None, w)"

definition PutFile ::
  "PublishedStorage \<Rightarrow> string \<Rightarrow> string \<Rightarrow> world \<Rightarrow> error option \<times> world" where
  "PutFile storage path sourceFilename w =
     (case files w sourceFilename of
        None \<Rightarrow> (Some (PathError sourceFilename), w)
      | Some source \<Rightarrow>
          (case ObjectPut (container storage) (Join [prefix storage, path]) source w of
             (Some err, w1) \<Rightarrow>
               (Some (Errorf (''error uploading '' @ sourceFilename @ '' to ''
                  @ String storage @ '': '' @ Error err)), w1)
           | (None, w1) \<Rightarrow> (None, w1)))"

definition Remove :: "PublishedStorage \<Rightarrow> string \<Rightarrow> world \<Rightarrow> error option \<times> world" where
  "Remove storage path w =
     (case ObjectDelete (container storage) (Join [prefix storage, path]) w of
        (Some err, w1) \<Rightarrow>
          (Some (Errorf (''error deleting '' @ path @ '' from '' @ String storage
             @ '': '' @ Error err)), w1)
      | (None, w1) \<Rightarrow> (None, w1))"

definition Filelist ::
  "PublishedStorage \<Rightarrow> string \<Rightarrow> world \<Rightarrow> (error + string list) \<times> world" where
  "Filelist storage pre w =
     (let joined = Join [prefix storage, pre];
          pre' = (if joined \<noteq> [] then joined @ ''/'' else joined)
      in case ObjectsAll (container storage) w of
           (Inl err, w1) \<Rightarrow>
             (Inl (Errorf (''error listing under prefix '' @ pre' @ '' in ''
                @ String storage @ '': '' @ Error err)), w1)
         | (Inr objs, w1) \<Rightarrow> (Inr (map Name objs), w1))"

fun remove_each ::
  "PublishedStorage \<Rightarrow> string list \<Rightarrow> world \<Rightarrow> error option \<times> world" where
  "remove_each storage [] w = (None, w)"
| "remove_each storage (filename # rest) w =
     (case Remove storage filename w of
        (Some err, w1) \<Rightarrow> (Some err, w1)
      | (None, w1) \<Rightarrow> remove_each storage rest w1)"

definition RemoveDirs ::
  "PublishedStorage \<Rightarrow> string \<Rightarrow> Progress \<Rightarrow> world \<Rightarrow> error option \<times> world" where
  "RemoveDirs storage path progress w =
     (case Filelist storage path w of
        (Inl err, w1) \<Rightarrow> (Some err, w1)
      | (Inr filelist, w1) \<Rightarrow> remove_each storage filelist w1)"

definition unquote :: "string \<Rightarrow> string" where
  "unquote s = filter (\<lambda>c. c \<noteq> CHR 0x22) s"

definition LinkFromPool ::
  "PublishedStorage \<Rightarrow> string \<Rightarrow> PackagePool \<Rightarrow> string \<Rightarrow> string \<Rightarrow> bool \<Rightarrow> world
     \<Rightarrow> error option \<times> world" where
  "LinkFromPool storage publishedDirectory sourcePool sourcePath sourceMD5 force w =
     (if sourcePool \<noteq> files_PackagePool then (Some Panic, w)
      else
        let baseName = Base sourcePath;
            relPath = Join [publishedDirectory, baseName];
            poolPath = Join [prefix storage, relPath]
        in case Object (container storage) poolPath w of
             (Inl err, w1) \<Rightarrow>
               (if err \<noteq> ObjectNotFound
                then (Some (Errorf (''error getting information about '' @ poolPath
                        @ '' from '' @ String storage @ '': '' @ Error err)), w1)
                else PutFile storage relPath sourcePath w1)
           | (Inr object, w1) \<Rightarrow>
               (let destinationMD5 = unquote (Hash object)
                in if destinationMD5 = sourceMD5 then (None, w1)
                   else if \<not> force \<and> destinationMD5 \<noteq> sourceMD5
                   then (Some (Errorf (''error putting file to '' @ poolPath
                           @ '': file already exists and is different: ''
                           @ String storage)), w1)
                   else PutFile storage relPath sourcePath w1))"

definition RenameFile ::
  "PublishedStorage \<Rightarrow> string \<Rightarrow> string \<Rightarrow> world \<Rightarrow> error option \<times> world" where
  "RenameFile storage oldName newName w =
     (case ObjectMove (container storage) (Join [prefix storage, oldName])
             (container storage) (Join [prefix storage, newName]) w of
        (Some err, w1) \<Rightarrow> (Some (Swift err), w1)
      | (None, w1) \<Rightarrow> (None, w1))"

section \<open>The states a rename passes through\<close>

text \<open>
  \<open>RenameFile\<close> is one call of \<open>ObjectMove\<close>, which is two requests. The store can be
  read between them, so the states of the world that can be seen while \<open>RenameFile\<close>
  runs are: the state before, the state after the copy request, and (when the copy went
  through) the state after the delete request. The last one is the state \<open>RenameFile\<close>
  returns in.
\<close>

definition RenameFile_states ::
  "PublishedStorage \<Rightarrow> string \<Rightarrow> string \<Rightarrow> world \<Rightarrow> world list" where
  "RenameFile_states storage oldName newName w =
     (case ObjectCopy (container storage) (Join [prefix storage, oldName])
             (container storage) (Join [prefix storage, newName]) w of
        (Some err, w1) \<Rightarrow> [w, w1]
      | (None, w1) \<Rightarrow>
          [w, w1, snd (ObjectDelete (container storage) (Join [prefix storage, oldName]) w1)])"

section \<open>What an error message mentions\<close>

text \<open>\<open>mentions msg sub\<close>: the text \<open>sub\<close> occurs in the message \<open>msg\<close>.\<close>

fun has_prefix :: "string \<Rightarrow> string \<Rightarrow> bool" where
  "has_prefix s [] = True"
| "has_prefix [] (c # cs) = False"
| "has_prefix (x # xs) (c # cs) = (x = c \<and> has_prefix xs cs)"

fun mentions :: "string \<Rightarrow> string \<Rightarrow> bool" where
  "mentions [] sub = (sub = [])"
| "mentions (x # xs) sub = (has_prefix (x # xs) sub \<or> mentions xs sub)"

section \<open>Example storages and worlds\<close>

text \<open>
  Two storages on the container \<open>repo\<close>: one published under the root prefix
  \<open>debian\<close>, one at the root of the container (configured as \<open>/\<close>, which the
  constructor turns into the empty prefix). The example worlds have one readable pool
  file, a server digest that is easy to read, the given objects and the given failures.
\<close>

definition example_storage :: PublishedStorage where
  "example_storage = NewPublishedStorage ''http://auth'' ''user'' ''secret'' ''repo'' ''debian''"

definition root_storage :: PublishedStorage where
  "root_storage = NewPublishedStorage ''http://auth'' ''user'' ''secret'' ''repo'' ''/''"

definition example_world ::
  "((string \<times> string) \<times> string) list \<Rightarrow> (nat \<Rightarrow> request \<Rightarrow> swift_error option) \<Rightarrow> world" where
  "example_world objs fs =
     \<lparr>files = [''/pool/ab/a_1.0.deb'' \<mapsto> ''new''], objects = objs,
      etag = (\<lambda>contents. ''md5-'' @ contents), faults = fs, calls = []\<rparr>"

definition empty_world :: world where
  "empty_world = example_world [] (\<lambda>n r. None)"

definition conflict_world :: world where
  "conflict_world =
     example_world [((''repo'', ''debian/pool/main/a/a_1.0.deb''), ''old'')] (\<lambda>n r. None)"

definition release_world :: world where
  "release_world = example_world
     [((''repo'', ''archive/file''), ''o1''), ((''repo'', ''debian/dists/Release''), ''r1''),
      ((''repo'', ''debian/pool/a.deb''), ''p1'')] (\<lambda>n r. None)"

definition failing_world :: world where
  "failing_world = example_world
     [((''repo'', ''a''), ''1''), ((''repo'', ''b''), ''2''), ((''repo'', ''c''), ''3'')]
     (\<lambda>n r. if n = 2 then Some (SwiftError ''timeout'') else None)"

definition unreachable_world :: world where
  "unreachable_world = example_world [] (\<lambda>n r. Some (SwiftError ''timeout''))"

section \<open>Evaluation and shared facts\<close>

lemmas path_defs = Join_def Clean_def clean_elem_def Base_def

lemmas swift_defs = send_def ObjectPut_def ObjectDelete_def Object_def ObjectsAll_def
  ObjectCopy_def ObjectMove_def listing_def

lemmas storage_defs = example_storage_def root_storage_def example_world_def
  NewPublishedStorage_def String_def

text \<open>
  The path functions on inputs from the table Go's own tests of \<open>Clean\<close>, \<open>Base\<close> and
  \<open>Join\<close> use, with the results Go gives.
\<close>

lemma Clean_examples:
  "Clean [] = ''.''"
  "Clean ''abc'' = ''abc''"
  "Clean ''..'' = ''..''"
  "Clean ''../../abc'' = ''../../abc''"
  "Clean ''/'' = ''/''"
  "Clean ''abc/def/'' = ''abc/def''"
  "Clean ''../../'' = ''../..''"
  "Clean ''abc//def//ghi'' = ''abc/def/ghi''"
  "Clean ''///abc'' = ''/abc''"
  "Clean ''/./abc/def'' = ''/abc/def''"
  "Clean ''abc/.'' = ''abc''"
  "Clean ''abc/def/../ghi/../jkl'' = ''abc/jkl''"
  "Clean ''abc/def/../..'' = ''.''"
  "Clean ''/abc/def/../..'' = ''/''"
  "Clean ''abc/def/../../..'' = ''..''"
  "Clean ''/abc/def/../../..'' = ''/''"
  "Clean ''abc/def/../../../ghi/jkl/../../../mno'' = ''../../mno''"
  "Clean ''/../abc'' = ''/abc''"
  "Clean ''abc/./../def'' = ''def''"
  "Clean ''abc/../../././../def'' = ''../../def''"
  by (simp_all add: Clean_def clean_elem_def)

lemma Base_examples:
  "Base [] = ''.''"
  "Base ''.'' = ''.''"
  "Base ''/.'' = ''.''"
  "Base ''/'' = ''/''"
  "Base ''////'' = ''/''"
  "Base ''x/'' = ''x''"
  "Base ''abc'' = ''abc''"
  "Base ''abc/def'' = ''def''"
  "Base ''a/b/.x'' = ''.x''"
  "Base ''a/b/c.'' = ''c.''"
  "Base ''a/b/c.x'' = ''c.x''"
  by (simp_all add: Base_def)

lemma Join_examples:
  "Join [] = []"
  "Join [[]] = []"
  "Join [''a''] = ''a''"
  "Join [''a'', ''b''] = ''a/b''"
  "Join [''a'', []] = ''a''"
  "Join [[], ''b''] = ''b''"
  "Join [''/'', ''a''] = ''/a''"
  "Join [''/'', []] = ''/''"
  "Join [''a/'', ''b''] = ''a/b''"
  "Join [''a/'', []] = ''a''"
  "Join [[], []] = []"
  by (simp_all add: Join_def Clean_def clean_elem_def)

lemma Object_world:
  "Object c name w = (r, w1) \<Longrightarrow> w1 = w\<lparr>calls := calls w @ [HeadRequest c name]\<rparr>"
  by (auto simp: Object_def send_def split: option.splits)

lemma Object_found:
  "Object c name w = (Inr object, w1) \<Longrightarrow>
     \<exists>contents. map_of (objects w) (c, name) = Some contents \<and> Hash object = etag w contents"
  by (auto simp: Object_def send_def split: option.splits)

lemma Object_of_stored:
  "faults w (length (calls w)) (HeadRequest c name) = None \<Longrightarrow>
   map_of (objects w) (c, name) = Some contents \<Longrightarrow>
   Object c name w =
     (Inr \<lparr>Name = name, Bytes = length contents, Hash = etag w contents\<rparr>,
      w\<lparr>calls := calls w @ [HeadRequest c name]\<rparr>)"
  by (simp add: Object_def send_def)

lemma PutFile_success:
  "PutFile storage path sourceFilename w = (None, w1) \<Longrightarrow>
     \<exists>contents. files w sourceFilename = Some contents \<and>
       w1 = w\<lparr>calls := calls w @
                [PutRequest (container storage) (Join [prefix storage, path]) contents],
              objects := AList.update (container storage, Join [prefix storage, path])
                contents (objects w)\<rparr>"
  by (auto simp: PutFile_def ObjectPut_def send_def split: option.splits prod.splits)

lemma Remove_calls:
  "Remove storage path w = (r, w1) \<Longrightarrow>
     calls w1 = calls w @ [DeleteRequest (container storage) (Join [prefix storage, path])]"
  by (auto simp: Remove_def ObjectDelete_def send_def split: option.splits prod.splits)

section \<open>MkDir\<close>

text \<open>
  C8. \<open>MkDir\<close> on the Swift backend does nothing: for every storage, path and state of
  the world it returns no error and the state it leaves is the state it found (every
  object, the local files and the record of requests made).
\<close>

theorem MkDir_noop: "MkDir storage path w = (None, w)"
  by (simp add: MkDir_def)

section \<open>Filelist\<close>

text \<open>
  The prefix handed to \<open>Filelist\<close> only reaches the text of the error message: when the
  listing request goes through, the result is the same for every prefix, namely the
  name of every object of the container, as stored.
\<close>

lemma Filelist_ignores_prefix:
  "faults w (length (calls w)) (ListRequest (container storage)) = None \<Longrightarrow>
   Filelist storage pre w =
     (Inr (map (\<lambda>(k, contents). snd k)
        (filter (\<lambda>(k, contents). fst k = container storage) (objects w))),
      w\<lparr>calls := calls w @ [ListRequest (container storage)]\<rparr>)"
  by (simp add: Filelist_def ObjectsAll_def send_def listing_def Let_def split_def comp_def)

text \<open>
  C1 says that \<open>Filelist prefix\<close> returns exactly the paths of the objects at or under
  the root prefix joined with \<open>prefix\<close>, with the root prefix stripped off. The code
  computes the joined prefix and then lists the whole container without it, and copies
  each object name unchanged. For the storage published under \<open>debian\<close> and a container
  holding \<open>archive/file\<close>, \<open>debian/dists/Release\<close> and \<open>debian/pool/a.deb\<close>,
  \<open>Filelist dists\<close> should be the single path \<open>dists/Release\<close>; it is all three keys,
  root prefix included.
\<close>

theorem Filelist_returns_every_key:
  "fst (Filelist example_storage ''dists'' release_world) =
     Inr [''archive/file'', ''debian/dists/Release'', ''debian/pool/a.deb'']"
  by (simp add: Filelist_def path_defs swift_defs storage_defs release_world_def)

text \<open>
  C7 says that after a successful \<open>PutFile path\<close> the list \<open>Filelist prefix\<close> includes
  \<open>path\<close> for every \<open>path\<close> under \<open>prefix\<close>. \<open>PutFile\<close> stores the object under the
  root prefix joined with \<open>path\<close>, and \<open>Filelist\<close> returns that key as it is: under
  the root prefix \<open>debian\<close>, after \<open>PutFile pool/b.deb\<close> succeeded, the list for
  \<open>pool\<close> holds \<open>debian/pool/b.deb\<close> and not \<open>pool/b.deb\<close>. The defect is the one
  of C1: the names are returned with the root prefix on.
\<close>

theorem Filelist_after_PutFile:
  "fst (PutFile example_storage ''pool/b.deb'' ''/pool/ab/a_1.0.deb'' release_world) = None
   \<and> fst (Filelist example_storage ''pool''
        (snd (PutFile example_storage ''pool/b.deb'' ''/pool/ab/a_1.0.deb'' release_world))) =
       Inr [''archive/file'', ''debian/dists/Release'', ''debian/pool/a.deb'',
            ''debian/pool/b.deb'']
   \<and> ''pool/b.deb'' \<notin> set [''archive/file'', ''debian/dists/Release'', ''debian/pool/a.deb'',
        ''debian/pool/b.deb'']"
  by (simp add: PutFile_def Filelist_def path_defs swift_defs storage_defs release_world_def)

section \<open>Remove\<close>

text \<open>
  C5, as the code has it. \<open>Remove path\<close> sends one delete request for the root prefix
  joined with \<open>path\<close>. Let that key not be empty (it is empty only when the root prefix
  and \<open>path\<close> are both empty, and then names the container, not an object), and let the
  request not be failed by the transport. If an object is stored under the key,
  \<open>Remove\<close> returns no error and the store afterwards is the store before without
  exactly that key; if no object is stored there, \<open>Remove\<close> returns an error whose
  message carries the client's \<open>Object Not Found\<close>, and the store is unchanged.
  Removing an absent path is therefore an error, not a success.
\<close>

theorem Remove_deletes_or_reports_missing:
  assumes "Join [prefix storage, path] \<noteq> []"
      and "faults w (length (calls w))
             (DeleteRequest (container storage) (Join [prefix storage, path])) = None"
  shows "(map_of (objects w) (container storage, Join [prefix storage, path]) \<noteq> None \<longrightarrow>
            fst (Remove storage path w) = None
          \<and> map_of (objects (snd (Remove storage path w))) =
              (map_of (objects w))((container storage, Join [prefix storage, path]) := None))
       \<and> (map_of (objects w) (container storage, Join [prefix storage, path]) = None \<longrightarrow>
            fst (Remove storage path w) =
              Some (Errorf (''error deleting '' @ path @ '' from '' @ String storage
                 @ '': Object Not Found''))
          \<and> objects (snd (Remove storage path w)) = objects w)"
  using assms
  by (auto simp: Remove_def ObjectDelete_def send_def delete_conv' split: option.splits)

text \<open>
  Both cases at work: removing the stored \<open>dists/Release\<close> succeeds and leaves the other
  two objects, removing the absent \<open>dists/InRelease\<close> is an error and changes nothing.
\<close>

theorem Remove_deletes_or_reports_missing_witness:
  "fst (Remove example_storage ''dists/Release'' release_world) = None
   \<and> objects (snd (Remove example_storage ''dists/Release'' release_world)) =
       [((''repo'', ''archive/file''), ''o1''), ((''repo'', ''debian/pool/a.deb''), ''p1'')]
   \<and> fst (Remove example_storage ''dists/InRelease'' release_world) =
       Some (Errorf ''error deleting dists/InRelease from Swift: http://auth user repo debian: Object Not Found'')
   \<and> objects (snd (Remove example_storage ''dists/InRelease'' release_world)) =
       objects release_world"
proof -
  have k1: "Join [prefix example_storage, ''dists/Release''] = ''debian/dists/Release''"
    and k2: "Join [prefix example_storage, ''dists/InRelease''] = ''debian/dists/InRelease''"
    by (simp_all add: path_defs storage_defs)
  have e1: "Join [prefix example_storage, ''dists/Release''] \<noteq> []"
    and e2: "Join [prefix example_storage, ''dists/InRelease''] \<noteq> []"
    unfolding k1 k2 by simp_all
  have n1: "faults release_world (length (calls release_world))
      (DeleteRequest (container example_storage)
         (Join [prefix example_storage, ''dists/Release''])) = None"
    and n2: "faults release_world (length (calls release_world))
      (DeleteRequest (container example_storage)
         (Join [prefix example_storage, ''dists/InRelease''])) = None"
    by (simp_all add: release_world_def example_world_def)
  have present: "map_of (objects release_world)
      (container example_storage, ''debian/dists/Release'') \<noteq> None"
    and absent: "map_of (objects release_world)
      (container example_storage, ''debian/dists/InRelease'') = None"
    by (simp_all add: release_world_def storage_defs)
  have deleted: "objects (snd (Remove example_storage ''dists/Release'' release_world)) =
       [((''repo'', ''archive/file''), ''o1''), ((''repo'', ''debian/pool/a.deb''), ''p1'')]"
    unfolding Remove_def k1 by (simp add: swift_defs release_world_def storage_defs)
  from Remove_deletes_or_reports_missing [OF e1 n1] Remove_deletes_or_reports_missing [OF e2 n2]
    present absent deleted
  show ?thesis unfolding k1 k2 by (simp add: storage_defs)
qed

text \<open>
  C5 as stated fails: the key for \<open>dists/InRelease\<close> is not empty, nothing is stored
  under it, the delete request is not failed by the transport, and \<open>Remove\<close> returns an
  error.
\<close>

theorem Remove_absent_counterexample:
  "Join [prefix example_storage, ''dists/InRelease''] = ''debian/dists/InRelease''
   \<and> map_of (objects release_world) (''repo'', ''debian/dists/InRelease'') = None
   \<and> faults release_world 0 (DeleteRequest ''repo'' ''debian/dists/InRelease'') = None
   \<and> fst (Remove example_storage ''dists/InRelease'' release_world) =
       Some (Errorf ''error deleting dists/InRelease from Swift: http://auth user repo debian: Object Not Found'')"
  by (simp add: Remove_def path_defs swift_defs storage_defs release_world_def)

section \<open>RemoveDirs\<close>

lemma remove_each_all_calls:
  "remove_each storage names w = (None, w1) \<Longrightarrow>
     calls w1 = calls w @
       map (\<lambda>f. DeleteRequest (container storage) (Join [prefix storage, f])) names"
proof (induction names arbitrary: w)
  case Nil
  then show ?case by simp
next
  case (Cons f fs)
  then obtain w' where r: "Remove storage f w = (None, w')"
    and rest: "remove_each storage fs w' = (None, w1)"
    by (auto split: prod.splits option.splits)
  from Remove_calls [OF r] Cons.IH [OF rest] show ?case by simp
qed

lemma remove_each_stops:
  "remove_each storage removed w = (None, w2) \<Longrightarrow>
   Remove storage filename w2 = (Some err, w3) \<Longrightarrow>
   remove_each storage (removed @ filename # rest) w = (Some err, w3)"
  by (induction removed arbitrary: w) (auto split: prod.splits option.splits)

text \<open>
  C6, as the code has it. \<open>RemoveDirs path\<close> takes the names \<open>Filelist path\<close> returns
  and removes them one by one in that order. It stops at the first name whose removal
  fails: it returns that removal's error in the state that removal left, and the
  requests made after the listing are exactly the deletes for the names up to and
  including the failing one. No name after it is attempted.
\<close>

theorem RemoveDirs_stops_at_first_failure:
  assumes listed: "Filelist storage path w = (Inr (removed @ filename # rest), w1)"
      and before: "remove_each storage removed w1 = (None, w2)"
      and failed: "Remove storage filename w2 = (Some err, w3)"
  shows "RemoveDirs storage path progress w = (Some err, w3)
       \<and> calls w3 = calls w1 @
           map (\<lambda>f. DeleteRequest (container storage) (Join [prefix storage, f]))
             (removed @ [filename])"
proof -
  from listed remove_each_stops [OF before failed]
  have "RemoveDirs storage path progress w = (Some err, w3)"
    by (simp add: RemoveDirs_def)
  moreover from remove_each_all_calls [OF before] Remove_calls [OF failed]
  have "calls w3 = calls w1 @
           map (\<lambda>f. DeleteRequest (container storage) (Join [prefix storage, f]))
             (removed @ [filename])"
    by simp
  ultimately show ?thesis by simp
qed

text \<open>
  Three objects \<open>a\<close>, \<open>b\<close>, \<open>c\<close> at the root of the container; the third request (the
  delete of \<open>b\<close>) times out. \<open>a\<close> is removed, the error for \<open>b\<close> is returned, and the
  requests end with the delete of \<open>b\<close>.
\<close>

theorem RemoveDirs_stops_at_first_failure_witness:
  "fst (RemoveDirs root_storage [] () failing_world) =
     Some (Errorf ''error deleting b from Swift: http://auth user repo : timeout'')
   \<and> calls (snd (RemoveDirs root_storage [] () failing_world)) =
       [ListRequest ''repo'', DeleteRequest ''repo'' ''a'', DeleteRequest ''repo'' ''b'']"
proof -
  let ?w1 = "failing_world\<lparr>calls := [ListRequest ''repo'']\<rparr>"
  let ?w2 = "failing_world\<lparr>calls := [ListRequest ''repo'', DeleteRequest ''repo'' ''a''],
     objects := [((''repo'', ''b''), ''2''), ((''repo'', ''c''), ''3'')]\<rparr>"
  let ?w3 = "failing_world\<lparr>calls := [ListRequest ''repo'', DeleteRequest ''repo'' ''a'',
       DeleteRequest ''repo'' ''b''],
     objects := [((''repo'', ''b''), ''2''), ((''repo'', ''c''), ''3'')]\<rparr>"
  have listed: "Filelist root_storage [] failing_world = (Inr ([''a''] @ ''b'' # [''c'']), ?w1)"
    by (simp add: Filelist_def path_defs swift_defs storage_defs failing_world_def)
  have before: "remove_each root_storage [''a''] ?w1 = (None, ?w2)"
    by (simp add: Remove_def path_defs swift_defs storage_defs failing_world_def)
  have failed: "Remove root_storage ''b'' ?w2 =
      (Some (Errorf ''error deleting b from Swift: http://auth user repo : timeout''), ?w3)"
    by (simp add: Remove_def path_defs swift_defs storage_defs failing_world_def)
  from RemoveDirs_stops_at_first_failure [OF listed before failed, of "()"]
  show ?thesis by (simp add: path_defs storage_defs failing_world_def)
qed

text \<open>
  C6 as stated fails: in the same run the delete of \<open>c\<close> would have gone through, yet
  it is never requested, and \<open>c\<close> is still stored when \<open>RemoveDirs\<close> returns the error
  for \<open>b\<close>.
\<close>

theorem RemoveDirs_best_effort_counterexample:
  "fst (RemoveDirs root_storage [] () failing_world) =
     Some (Errorf ''error deleting b from Swift: http://auth user repo : timeout'')
   \<and> faults failing_world 3 (DeleteRequest ''repo'' ''c'') = None
   \<and> DeleteRequest ''repo'' ''c'' \<notin> set (calls (snd (RemoveDirs root_storage [] () failing_world)))
   \<and> map_of (objects (snd (RemoveDirs root_storage [] () failing_world))) (''repo'', ''c'') =
       Some ''3''"
  by (simp add: RemoveDirs_def Filelist_def Remove_def path_defs swift_defs storage_defs
      failing_world_def)

section \<open>LinkFromPool\<close>

text \<open>
  C10. Whatever \<open>force\<close> is: when the probe for the destination object fails with an
  error other than \<open>ObjectNotFound\<close>, \<open>LinkFromPool\<close> returns at once with an error
  that carries the probe's error text, in the state the probe left. No object has
  changed and the probe is the only request that was made, so nothing was uploaded.
\<close>

theorem LinkFromPool_probe_error:
  assumes "Object (container storage)
             (Join [prefix storage, Join [publishedDirectory, Base sourcePath]]) w = (Inl err, w1)"
      and "err \<noteq> ObjectNotFound"
  shows "LinkFromPool storage publishedDirectory files_PackagePool sourcePath sourceMD5 force w =
           (Some (Errorf (''error getting information about ''
              @ Join [prefix storage, Join [publishedDirectory, Base sourcePath]]
              @ '' from '' @ String storage @ '': '' @ Error err)), w1)
         \<and> objects w1 = objects w
         \<and> calls w1 = calls w @ [HeadRequest (container storage)
              (Join [prefix storage, Join [publishedDirectory, Base sourcePath]])]"
proof -
  let ?key = "Join [prefix storage, Join [publishedDirectory, Base sourcePath]]"
  from assms(1) have "w1 = w\<lparr>calls := calls w @ [HeadRequest (container storage) ?key]\<rparr>"
    by (rule Object_world)
  then have "objects w1 = objects w"
    and "calls w1 = calls w @ [HeadRequest (container storage) ?key]"
    by simp_all
  moreover from assms
  have "LinkFromPool storage publishedDirectory files_PackagePool sourcePath sourceMD5 force w =
           (Some (Errorf (''error getting information about '' @ ?key
              @ '' from '' @ String storage @ '': '' @ Error err)), w1)"
    by (simp add: LinkFromPool_def Let_def)
  ultimately show ?thesis by simp
qed

text \<open>
  Every request times out, \<open>force\<close> is set: the call returns the probe's error, the
  store is still empty and only the probe was sent.
\<close>

theorem LinkFromPool_probe_error_witness:
  "fst (LinkFromPool example_storage ''pool/main/a'' files_PackagePool ''/pool/ab/a_1.0.deb''
          ''md5-new'' True unreachable_world) =
     Some (Errorf ''error getting information about debian/pool/main/a/a_1.0.deb from Swift: http://auth user repo debian: timeout'')
   \<and> objects (snd (LinkFromPool example_storage ''pool/main/a'' files_PackagePool
          ''/pool/ab/a_1.0.deb'' ''md5-new'' True unreachable_world)) = []
   \<and> calls (snd (LinkFromPool example_storage ''pool/main/a'' files_PackagePool
          ''/pool/ab/a_1.0.deb'' ''md5-new'' True unreachable_world)) =
       [HeadRequest ''repo'' ''debian/pool/main/a/a_1.0.deb'']"
proof -
  let ?w1 = "unreachable_world\<lparr>calls := [HeadRequest ''repo'' ''debian/pool/main/a/a_1.0.deb'']\<rparr>"
  have key: "Join [prefix example_storage, Join [''pool/main/a'', Base ''/pool/ab/a_1.0.deb'']]
      = ''debian/pool/main/a/a_1.0.deb''"
    by (simp add: path_defs storage_defs)
  have probe: "Object (container example_storage)
      (Join [prefix example_storage, Join [''pool/main/a'', Base ''/pool/ab/a_1.0.deb'']])
      unreachable_world = (Inl (SwiftError ''timeout''), ?w1)"
    unfolding key by (simp add: swift_defs storage_defs unreachable_world_def)
  have other: "SwiftError ''timeout'' \<noteq> ObjectNotFound"
    by simp
  from LinkFromPool_probe_error [OF probe other, of "''md5-new''" True] show ?thesis
    unfolding key by (simp add: storage_defs unreachable_world_def)
qed

lemma LinkFromPool_same_hash:
  assumes "Object (container storage)
             (Join [prefix storage, Join [publishedDirectory, Base sourcePath]]) w = (Inr object, w1)"
      and "unquote (Hash object) = sourceMD5"
  shows "LinkFromPool storage publishedDirectory files_PackagePool sourcePath sourceMD5 force w =
           (None, w1)"
  using assms by (simp add: LinkFromPool_def Let_def)

lemma LinkFromPool_success_stored:
  assumes ok: "LinkFromPool storage publishedDirectory files_PackagePool sourcePath sourceMD5
                 force w = (None, w1)"
  shows "\<exists>contents.
           map_of (objects w1) (container storage,
             Join [prefix storage, Join [publishedDirectory, Base sourcePath]]) = Some contents
         \<and> (unquote (etag w contents) = sourceMD5 \<or> files w sourcePath = Some contents)
         \<and> etag w1 = etag w"
proof -
  let ?rel = "Join [publishedDirectory, Base sourcePath]"
  let ?key = "Join [prefix storage, ?rel]"
  obtain r w' where probe: "Object (container storage) ?key w = (r, w')"
    by (cases "Object (container storage) ?key w")
  have w': "w' = w\<lparr>calls := calls w @ [HeadRequest (container storage) ?key]\<rparr>"
    by (rule Object_world [OF probe])
  have uploaded: ?thesis if put: "PutFile storage ?rel sourcePath w' = (None, w1)"
  proof -
    from PutFile_success [OF put] obtain contents where
      c: "files w' sourcePath = Some contents"
      and w1: "w1 = w'\<lparr>calls := calls w' @ [PutRequest (container storage) ?key contents],
                 objects := AList.update (container storage, ?key) contents (objects w')\<rparr>"
      by blast
    from w1 have "map_of (objects w1) (container storage, ?key) = Some contents"
      by (simp add: update_conv')
    moreover from c w' have "files w sourcePath = Some contents" by simp
    moreover from w1 w' have "etag w1 = etag w" by simp
    ultimately show ?thesis by blast
  qed
  show ?thesis
  proof (cases r)
    case (Inl err)
    with ok probe have "PutFile storage ?rel sourcePath w' = (None, w1)"
      by (simp add: LinkFromPool_def Let_def split: if_splits)
    then show ?thesis by (rule uploaded)
  next
    case (Inr object)
    show ?thesis
    proof (cases "unquote (Hash object) = sourceMD5")
      case True
      with ok probe Inr have "w1 = w'" by (simp add: LinkFromPool_def Let_def)
      moreover from probe Inr obtain contents where
        "map_of (objects w) (container storage, ?key) = Some contents"
        "Hash object = etag w contents"
        using Object_found by blast
      ultimately show ?thesis using True w' by auto
    next
      case False
      with ok probe Inr have "PutFile storage ?rel sourcePath w' = (None, w1)"
        by (simp add: LinkFromPool_def Let_def split: if_splits)
      then show ?thesis by (rule uploaded)
    qed
  qed
qed

text \<open>
  C3. \<open>LinkFromPool\<close> is idempotent. Let a first call for a pool entry and a destination
  directory succeed, where the entry's checksum is the digest of its pool file (quotes
  aside). Then a second call with the same entry and destination, for any \<open>force\<close>,
  whose probe is not failed by the transport, succeeds too and is a no-op: it sends the
  probe and nothing else, so the published objects are those the first call left.
\<close>

theorem LinkFromPool_idempotent:
  assumes first: "LinkFromPool storage publishedDirectory files_PackagePool sourcePath sourceMD5
                    force w = (None, w1)"
      and pool: "\<forall>contents. files w sourcePath = Some contents \<longrightarrow>
                   unquote (etag w contents) = sourceMD5"
      and probe: "faults w1 (length (calls w1)) (HeadRequest (container storage)
                    (Join [prefix storage, Join [publishedDirectory, Base sourcePath]])) = None"
  shows "LinkFromPool storage publishedDirectory files_PackagePool sourcePath sourceMD5 force' w1 =
           (None, w1\<lparr>calls := calls w1 @ [HeadRequest (container storage)
                    (Join [prefix storage, Join [publishedDirectory, Base sourcePath]])]\<rparr>)"
proof -
  let ?key = "Join [prefix storage, Join [publishedDirectory, Base sourcePath]]"
  from LinkFromPool_success_stored [OF first] obtain contents where
    stored: "map_of (objects w1) (container storage, ?key) = Some contents"
    and h: "unquote (etag w contents) = sourceMD5 \<or> files w sourcePath = Some contents"
    and e: "etag w1 = etag w"
    by blast
  from h pool have "unquote (etag w contents) = sourceMD5" by blast
  with e have "unquote (Hash \<lparr>Name = ?key, Bytes = length contents,
      Hash = etag w1 contents\<rparr>) = sourceMD5"
    by simp
  with Object_of_stored [OF probe stored] show ?thesis
    by (rule LinkFromPool_same_hash)
qed

text \<open>
  On the empty container the first call uploads the pool file; the second call, here
  with \<open>force\<close> set, returns no error, leaves the one object as it is and adds only its
  probe to the requests.
\<close>

theorem LinkFromPool_idempotent_witness:
  "fst (LinkFromPool example_storage ''pool/main/a'' files_PackagePool ''/pool/ab/a_1.0.deb''
          ''md5-new'' False empty_world) = None
   \<and> fst (LinkFromPool example_storage ''pool/main/a'' files_PackagePool ''/pool/ab/a_1.0.deb''
          ''md5-new'' True
          (snd (LinkFromPool example_storage ''pool/main/a'' files_PackagePool
             ''/pool/ab/a_1.0.deb'' ''md5-new'' False empty_world))) = None
   \<and> objects (snd (LinkFromPool example_storage ''pool/main/a'' files_PackagePool
          ''/pool/ab/a_1.0.deb'' ''md5-new'' True
          (snd (LinkFromPool example_storage ''pool/main/a'' files_PackagePool
             ''/pool/ab/a_1.0.deb'' ''md5-new'' False empty_world)))) =
       [((''repo'', ''debian/pool/main/a/a_1.0.deb''), ''new'')]
   \<and> calls (snd (LinkFromPool example_storage ''pool/main/a'' files_PackagePool
          ''/pool/ab/a_1.0.deb'' ''md5-new'' True
          (snd (LinkFromPool example_storage ''pool/main/a'' files_PackagePool
             ''/pool/ab/a_1.0.deb'' ''md5-new'' False empty_world)))) =
       [HeadRequest ''repo'' ''debian/pool/main/a/a_1.0.deb'',
        PutRequest ''repo'' ''debian/pool/main/a/a_1.0.deb'' ''new'',
        HeadRequest ''repo'' ''debian/pool/main/a/a_1.0.deb'']"
proof -
  let ?w1 = "empty_world
        \<lparr>calls := [HeadRequest ''repo'' ''debian/pool/main/a/a_1.0.deb'',
                   PutRequest ''repo'' ''debian/pool/main/a/a_1.0.deb'' ''new''],
         objects := [((''repo'', ''debian/pool/main/a/a_1.0.deb''), ''new'')]\<rparr>"
  have key: "Join [prefix example_storage, Join [''pool/main/a'', Base ''/pool/ab/a_1.0.deb'']]
      = ''debian/pool/main/a/a_1.0.deb''"
    by (simp add: path_defs storage_defs)
  have first: "LinkFromPool example_storage ''pool/main/a'' files_PackagePool
      ''/pool/ab/a_1.0.deb'' ''md5-new'' False empty_world = (None, ?w1)"
    by (simp add: LinkFromPool_def PutFile_def Let_def path_defs swift_defs storage_defs
        empty_world_def)
  have pool: "\<forall>contents. files empty_world ''/pool/ab/a_1.0.deb'' = Some contents \<longrightarrow>
      unquote (etag empty_world contents) = ''md5-new''"
    by (simp add: empty_world_def example_world_def unquote_def)
  have probe: "faults ?w1 (length (calls ?w1)) (HeadRequest (container example_storage)
      (Join [prefix example_storage, Join [''pool/main/a'', Base ''/pool/ab/a_1.0.deb'']])) = None"
    by (simp add: empty_world_def example_world_def)
  from LinkFromPool_idempotent [OF first pool probe, of True] first show ?thesis
    unfolding key by (simp add: storage_defs empty_world_def)
qed

text \<open>
  C2, as the code has it. Let the probe find an object at the destination whose hash
  (quotes removed) differs from the entry's checksum. Without \<open>force\<close>, \<open>LinkFromPool\<close>
  fails with an error whose message names the destination key and the storage, and no
  object changes; the message is built from those two only and carries neither hash.
  With \<open>force\<close>, when the pool file can be read and the upload request is not failed by
  the transport, \<open>LinkFromPool\<close> succeeds and the destination then holds the content of
  the entry's pool file, whose digest is the entry's checksum.
\<close>

theorem LinkFromPool_conflict:
  assumes probe: "Object (container storage)
             (Join [prefix storage, Join [publishedDirectory, Base sourcePath]]) w = (Inr object, w1)"
      and differ: "unquote (Hash object) \<noteq> sourceMD5"
  shows "LinkFromPool storage publishedDirectory files_PackagePool sourcePath sourceMD5 False w =
           (Some (Errorf (''error putting file to ''
              @ Join [prefix storage, Join [publishedDirectory, Base sourcePath]]
              @ '': file already exists and is different: '' @ String storage)), w1)
         \<and> objects w1 = objects w
         \<and> (\<forall>contents.
              files w sourcePath = Some contents \<and>
              faults w1 (length (calls w1)) (PutRequest (container storage)
                (Join [prefix storage, Join [publishedDirectory, Base sourcePath]]) contents) = None
              \<longrightarrow>
              fst (LinkFromPool storage publishedDirectory files_PackagePool sourcePath
                     sourceMD5 True w) = None
              \<and> map_of (objects (snd (LinkFromPool storage publishedDirectory files_PackagePool
                     sourcePath sourceMD5 True w)))
                   (container storage,
                    Join [prefix storage, Join [publishedDirectory, Base sourcePath]])
                 = Some contents)"
proof -
  let ?key = "Join [prefix storage, Join [publishedDirectory, Base sourcePath]]"
  have w1: "w1 = w\<lparr>calls := calls w @ [HeadRequest (container storage) ?key]\<rparr>"
    by (rule Object_world [OF probe])
  have refused: "LinkFromPool storage publishedDirectory files_PackagePool sourcePath sourceMD5
           False w =
           (Some (Errorf (''error putting file to '' @ ?key
              @ '': file already exists and is different: '' @ String storage)), w1)"
    using probe differ by (simp add: LinkFromPool_def Let_def)
  have forced: "LinkFromPool storage publishedDirectory files_PackagePool sourcePath sourceMD5
           True w =
           PutFile storage (Join [publishedDirectory, Base sourcePath]) sourcePath w1"
    using probe differ by (simp add: LinkFromPool_def Let_def)
  have put: "fst (PutFile storage (Join [publishedDirectory, Base sourcePath]) sourcePath w1) = None
      \<and> map_of (objects (snd (PutFile storage (Join [publishedDirectory, Base sourcePath])
             sourcePath w1))) (container storage, ?key) = Some contents"
    if "files w sourcePath = Some contents"
      and "faults w1 (length (calls w1)) (PutRequest (container storage) ?key contents) = None"
    for contents
    using that w1 by (simp add: PutFile_def ObjectPut_def send_def update_conv')
  from w1 have "objects w1 = objects w" by simp
  with refused forced put show ?thesis by simp
qed

text \<open>
  The destination holds \<open>old\<close>, the entry's file holds \<open>new\<close>: without \<open>force\<close> the
  call is refused and the store keeps \<open>old\<close>; with \<open>force\<close> it succeeds and the
  destination holds \<open>new\<close>.
\<close>

theorem LinkFromPool_conflict_witness:
  "fst (LinkFromPool example_storage ''pool/main/a'' files_PackagePool ''/pool/ab/a_1.0.deb''
          ''md5-new'' False conflict_world) =
     Some (Errorf ''error putting file to debian/pool/main/a/a_1.0.deb: file already exists and is different: Swift: http://auth user repo debian'')
   \<and> objects (snd (LinkFromPool example_storage ''pool/main/a'' files_PackagePool
          ''/pool/ab/a_1.0.deb'' ''md5-new'' False conflict_world)) = objects conflict_world
   \<and> fst (LinkFromPool example_storage ''pool/main/a'' files_PackagePool ''/pool/ab/a_1.0.deb''
          ''md5-new'' True conflict_world) = None
   \<and> map_of (objects (snd (LinkFromPool example_storage ''pool/main/a'' files_PackagePool
          ''/pool/ab/a_1.0.deb'' ''md5-new'' True conflict_world)))
        (''repo'', ''debian/pool/main/a/a_1.0.deb'') = Some ''new''"
proof -
  let ?w1 = "conflict_world\<lparr>calls := [HeadRequest ''repo'' ''debian/pool/main/a/a_1.0.deb'']\<rparr>"
  let ?object = "\<lparr>Name = ''debian/pool/main/a/a_1.0.deb'', Bytes = 3, Hash = ''md5-old''\<rparr>"
  have key: "Join [prefix example_storage, Join [''pool/main/a'', Base ''/pool/ab/a_1.0.deb'']]
      = ''debian/pool/main/a/a_1.0.deb''"
    by (simp add: path_defs storage_defs)
  have probe: "Object (container example_storage)
      (Join [prefix example_storage, Join [''pool/main/a'', Base ''/pool/ab/a_1.0.deb'']])
      conflict_world = (Inr ?object, ?w1)"
    unfolding key by (simp add: swift_defs storage_defs conflict_world_def)
  have differ: "unquote (Hash ?object) \<noteq> ''md5-new''"
    by (simp add: unquote_def)
  have f: "files conflict_world ''/pool/ab/a_1.0.deb'' = Some ''new''"
    by (simp add: conflict_world_def example_world_def)
  have nofault: "faults ?w1 (length (calls ?w1)) (PutRequest (container example_storage)
      (Join [prefix example_storage, Join [''pool/main/a'', Base ''/pool/ab/a_1.0.deb'']])
      ''new'') = None"
    by (simp add: conflict_world_def example_world_def)
  from LinkFromPool_conflict [OF probe differ] f nofault show ?thesis
    unfolding key by (simp add: storage_defs)
qed

text \<open>
  C2 as stated fails: the error for the refused call names the destination key, but
  neither the hash of the stored object (\<open>md5-old\<close>) nor the entry's checksum
  (\<open>md5-new\<close>) occurs in its message.
\<close>

theorem LinkFromPool_conflict_counterexample:
  "fst (LinkFromPool example_storage ''pool/main/a'' files_PackagePool ''/pool/ab/a_1.0.deb''
          ''md5-new'' False conflict_world) =
     Some (Errorf ''error putting file to debian/pool/main/a/a_1.0.deb: file already exists and is different: Swift: http://auth user repo debian'')
   \<and> \<not> mentions ''error putting file to debian/pool/main/a/a_1.0.deb: file already exists and is different: Swift: http://auth user repo debian'' ''md5-old''
   \<and> \<not> mentions ''error putting file to debian/pool/main/a/a_1.0.deb: file already exists and is different: Swift: http://auth user repo debian'' ''md5-new''"
  by (simp add: LinkFromPool_def Let_def path_defs swift_defs storage_defs conflict_world_def
      unquote_def)

text \<open>
  C4 says that a successful \<open>LinkFromPool\<close> returns the path of the published file,
  relative to the published root, and the comment above the function says the same.
  The function returns an error value and nothing else: on the empty container the
  call below uploads the pool file to \<open>debian/pool/main/a/a_1.0.deb\<close> and its whole
  result is \<open>None\<close> (no error) and the new state. The relative path
  \<open>pool/main/a/a_1.0.deb\<close> is computed inside and never handed back.
\<close>

theorem LinkFromPool_returns_only_error:
  "LinkFromPool example_storage ''pool/main/a'' files_PackagePool ''/pool/ab/a_1.0.deb''
     ''md5-new'' False empty_world =
     (None, empty_world
        \<lparr>calls := [HeadRequest ''repo'' ''debian/pool/main/a/a_1.0.deb'',
                   PutRequest ''repo'' ''debian/pool/main/a/a_1.0.deb'' ''new''],
         objects := [((''repo'', ''debian/pool/main/a/a_1.0.deb''), ''new'')]\<rparr>)"
  by (simp add: LinkFromPool_def PutFile_def Let_def path_defs swift_defs storage_defs
      empty_world_def)

section \<open>RenameFile\<close>

lemma RenameFile_states_last:
  "last (RenameFile_states storage oldName newName w) =
     snd (RenameFile storage oldName newName w)"
  by (simp add: RenameFile_states_def RenameFile_def ObjectMove_def
      split: prod.splits option.splits)

text \<open>
  C9, as the code has it. Let \<open>oldName\<close> and \<open>newName\<close> lead to two different object
  keys, and let the object at the old key hold \<open>contents\<close>. Then in every state that
  can be seen while \<open>RenameFile\<close> runs (before, after the copy, after the delete, the
  last of which is the state it returns in) the contents are stored at the old key or
  at the new key: the source is deleted only after the copy has gone through. When
  \<open>RenameFile\<close> returns no error, the contents are at the new key and the old key is
  gone. Nothing is said for two names that lead to the same key.
\<close>

theorem RenameFile_keeps_content:
  assumes distinct: "Join [prefix storage, oldName] \<noteq> Join [prefix storage, newName]"
      and stored: "map_of (objects w) (container storage, Join [prefix storage, oldName]) =
                     Some contents"
  shows "(\<forall>s \<in> set (RenameFile_states storage oldName newName w).
            map_of (objects s) (container storage, Join [prefix storage, oldName]) = Some contents
          \<or> map_of (objects s) (container storage, Join [prefix storage, newName]) = Some contents)
       \<and> last (RenameFile_states storage oldName newName w) =
           snd (RenameFile storage oldName newName w)
       \<and> (fst (RenameFile storage oldName newName w) = None \<longrightarrow>
            map_of (objects (snd (RenameFile storage oldName newName w)))
              (container storage, Join [prefix storage, newName]) = Some contents
          \<and> map_of (objects (snd (RenameFile storage oldName newName w)))
              (container storage, Join [prefix storage, oldName]) = None)"
proof -
  let ?c = "container storage"
  let ?old = "Join [prefix storage, oldName]"
  let ?new = "Join [prefix storage, newName]"
  obtain r1 w1 where copy: "ObjectCopy ?c ?old ?c ?new w = (r1, w1)"
    by (cases "ObjectCopy ?c ?old ?c ?new w")
  obtain r2 w2 where del: "ObjectDelete ?c ?old w1 = (r2, w2)"
    by (cases "ObjectDelete ?c ?old w1")
  from copy stored have old1: "map_of (objects w1) (?c, ?old) = Some contents"
    using distinct by (auto simp: ObjectCopy_def send_def update_conv' split: option.splits)
  from copy stored have new1: "r1 = None \<Longrightarrow> map_of (objects w1) (?c, ?new) = Some contents"
    by (auto simp: ObjectCopy_def send_def update_conv' split: option.splits)
  from del old1 have gone2: "r2 = None \<Longrightarrow> map_of (objects w2) (?c, ?old) = None"
    by (auto simp: ObjectDelete_def send_def delete_conv' split: option.splits)
  from del distinct have new2: "map_of (objects w2) (?c, ?new) = map_of (objects w1) (?c, ?new)"
    by (auto simp: ObjectDelete_def send_def delete_conv' split: option.splits)
  have states: "\<forall>s \<in> set (RenameFile_states storage oldName newName w).
            map_of (objects s) (?c, ?old) = Some contents
          \<or> map_of (objects s) (?c, ?new) = Some contents"
  proof (cases r1)
    case None
    with copy del have "RenameFile_states storage oldName newName w = [w, w1, w2]"
      by (simp add: RenameFile_states_def)
    moreover have "map_of (objects w2) (?c, ?new) = Some contents"
      using new1 [OF None] new2 by simp
    ultimately show ?thesis using stored old1 by simp
  next
    case (Some err)
    with copy have "RenameFile_states storage oldName newName w = [w, w1]"
      by (simp add: RenameFile_states_def)
    then show ?thesis using stored old1 by simp
  qed
  have completed: "fst (RenameFile storage oldName newName w) = None \<longrightarrow>
            map_of (objects (snd (RenameFile storage oldName newName w))) (?c, ?new) = Some contents
          \<and> map_of (objects (snd (RenameFile storage oldName newName w))) (?c, ?old) = None"
  proof (cases r1)
    case None
    with copy del have r: "RenameFile storage oldName newName w =
        (case r2 of None \<Rightarrow> (None, w2) | Some err \<Rightarrow> (Some (Swift err), w2))"
      by (simp add: RenameFile_def ObjectMove_def split: option.splits)
    show ?thesis
    proof (cases r2)
      case None
      with r new1 [OF \<open>r1 = None\<close>] new2 gone2 show ?thesis by simp
    next
      case (Some err)
      with r show ?thesis by simp
    qed
  next
    case (Some err)
    with copy show ?thesis by (simp add: RenameFile_def ObjectMove_def)
  qed
  from states completed RenameFile_states_last show ?thesis by blast
qed

text \<open>
  Renaming \<open>dists/Release\<close> to \<open>dists/Release.old\<close>: the three states hold the object
  at the old key, at both keys, and at the new key.
\<close>

theorem RenameFile_keeps_content_witness:
  "map (\<lambda>s. map fst (objects s))
     (RenameFile_states example_storage ''dists/Release'' ''dists/Release.old'' release_world) =
     [[(''repo'', ''archive/file''), (''repo'', ''debian/dists/Release''),
       (''repo'', ''debian/pool/a.deb'')],
      [(''repo'', ''archive/file''), (''repo'', ''debian/dists/Release''),
       (''repo'', ''debian/pool/a.deb''), (''repo'', ''debian/dists/Release.old'')],
      [(''repo'', ''archive/file''), (''repo'', ''debian/pool/a.deb''),
       (''repo'', ''debian/dists/Release.old'')]]
   \<and> fst (RenameFile example_storage ''dists/Release'' ''dists/Release.old'' release_world) = None
   \<and> map_of (objects (snd (RenameFile example_storage ''dists/Release'' ''dists/Release.old''
        release_world))) (''repo'', ''debian/dists/Release.old'') = Some ''r1''
   \<and> map_of (objects (snd (RenameFile example_storage ''dists/Release'' ''dists/Release.old''
        release_world))) (''repo'', ''debian/dists/Release'') = None"
proof -
  have k1: "Join [prefix example_storage, ''dists/Release''] = ''debian/dists/Release''"
    and k2: "Join [prefix example_storage, ''dists/Release.old''] = ''debian/dists/Release.old''"
    by (simp_all add: path_defs storage_defs)
  have distinct: "Join [prefix example_storage, ''dists/Release'']
      \<noteq> Join [prefix example_storage, ''dists/Release.old'']"
    unfolding k1 k2 by simp
  have stored: "map_of (objects release_world)
      (container example_storage, Join [prefix example_storage, ''dists/Release'']) = Some ''r1''"
    unfolding k1 by (simp add: release_world_def storage_defs)
  have ok: "fst (RenameFile example_storage ''dists/Release'' ''dists/Release.old''
      release_world) = None"
    unfolding RenameFile_def k1 k2 by (simp add: swift_defs release_world_def storage_defs)
  have states: "map (\<lambda>s. map fst (objects s))
     (RenameFile_states example_storage ''dists/Release'' ''dists/Release.old'' release_world) =
     [[(''repo'', ''archive/file''), (''repo'', ''debian/dists/Release''),
       (''repo'', ''debian/pool/a.deb'')],
      [(''repo'', ''archive/file''), (''repo'', ''debian/dists/Release''),
       (''repo'', ''debian/pool/a.deb''), (''repo'', ''debian/dists/Release.old'')],
      [(''repo'', ''archive/file''), (''repo'', ''debian/pool/a.deb''),
       (''repo'', ''debian/dists/Release.old'')]]"
    unfolding RenameFile_states_def k1 k2 by (simp add: swift_defs release_world_def storage_defs)
  from RenameFile_keeps_content [OF distinct stored] ok states show ?thesis
    unfolding k1 k2 by (simp add: storage_defs)
qed

text \<open>
  C9 as stated fails for a name renamed to itself: the copy writes the object onto
  itself, the delete then removes it, \<open>RenameFile\<close> returns no error and the content
  that was stored under \<open>dists/Release\<close> is at neither name.
\<close>

theorem RenameFile_same_name_counterexample:
  "map_of (objects release_world) (''repo'', ''debian/dists/Release'') = Some ''r1''
   \<and> fst (RenameFile example_storage ''dists/Release'' ''dists/Release'' release_world) = None
   \<and> map_of (objects (snd (RenameFile example_storage ''dists/Release'' ''dists/Release''
        release_world))) (''repo'', ''debian/dists/Release'') = None"
  by (simp add: RenameFile_def path_defs swift_defs storage_defs release_world_def)

end
